theory Spec2Isabelle
  imports Main
begin

section \<open>JavaScript strings and numbers\<close>

text \<open>
  A JavaScript string is a sequence of UTF-16 code units; \<open>s.length\<close> and the indices of
  \<open>substring\<close> count code units. A \<^typ>\<open>string\<close> of the model is that sequence, one
  \<^typ>\<open>char\<close> standing for one code unit.

  \<open>String.prototype.substring(start, end)\<close>: both indices are clamped to \<open>[0, length]\<close>
  (a missing \<open>end\<close> is the length) and swapped when \<open>start > end\<close>; it never throws.
\<close>

definition clampIndex :: "int \<Rightarrow> nat \<Rightarrow> nat" where
  "clampIndex i len = nat (min (max i 0) (int len))"

definition substring :: "string \<Rightarrow> int \<Rightarrow> int option \<Rightarrow> string" where
  "substring s start end_opt =
     (let len = length s;
          finalStart = clampIndex start len;
          finalEnd = (case end_opt of None \<Rightarrow> len | Some e \<Rightarrow> clampIndex e len);
          lo = min finalStart finalEnd;
          hi = max finalStart finalEnd
      in take (hi - lo) (drop lo s))"

text \<open>
  The fields \<open>offset\<close> and \<open>length\<close> of a match have the TypeScript type \<open>number\<close>; the
  analysis service sends integers, and the model takes them as \<^typ>\<open>int\<close> (negative
  values included), which is exact as long as they stay within the integers a JavaScript
  number represents exactly. \<open>numberToString\<close> is the conversion a template literal
  applies to such a number: the decimal digits, with a leading minus sign.
\<close>

definition digitChar :: "nat \<Rightarrow> char" where
  "digitChar d = ''0123456789'' ! d"

function digits :: "nat \<Rightarrow> string" where
  "digits n = (if n < 10 then [digitChar n] else digits (n div 10) @ [digitChar (n mod 10)])"
  by pat_completeness auto
termination
  by (relation "measure id") auto

definition numberToString :: "int \<Rightarrow> string" where
  "numberToString i = (if i < 0 then CHR ''-'' # digits (nat (- i)) else digits (nat i))"

section \<open>The data model\<close>

record Replacement =
  value_r :: string

record Context =
  text_c :: string

record Match =
  message :: string
  shortMessage :: string
  replacements :: "Replacement list"
  offset :: int
  length_m :: int
  context_m :: Context

text \<open>
  The key under which a match is recorded as fixed, written three times in the components
  (in \<open>handleFix\<close>, in \<open>separateMatches\<close> and in the rendering) as the template literal
  \<^verbatim>\<open>`${match.offset}-${match.length}-${match.message.substring(0, 20)}`\<close>.
\<close>

definition matchKey :: "Match \<Rightarrow> string" where
  "matchKey m =
     numberToString (offset m) @ ''-'' @ numberToString (length_m m) @ ''-'' @
     substring (message m) 0 (Some 20)"

section \<open>Applying a replacement\<close>

text \<open>
  The expression shared by the local \<open>handleFix\<close> and the \<open>insert-keyword\<close> route:
  \<^verbatim>\<open>content.substring(0, start) + replacement + content.substring(end)\<close>
  with \<open>start = match.offset\<close> and \<open>end = match.offset + match.length\<close>.
\<close>

definition applyReplacement :: "string \<Rightarrow> Match \<Rightarrow> string \<Rightarrow> string" where
  "applyReplacement content m replacement =
     (let start = offset m;
          end_m = offset m + length_m m
      in substring content 0 (Some start) @ replacement @ substring content end_m None)"

subsection \<open>The insert-keyword route\<close>

text \<open>
  The route reads \<open>{match, replacement, content}\<close> from the request body inside a
  \<open>try\<close>. Three things throw there: a body that is not JSON (\<open>req.json()\<close> rejects), a
  \<open>match\<close> that is missing or \<open>null\<close> (reading \<open>match.offset\<close>), and a \<open>content\<close> that
  is not a string (it has no \<open>substring\<close> method). A present match has the shape of the
  type \<open>Match\<close> and the replacement is a string, as the client sends them.
\<close>

datatype js_error = SyntaxError | TypeError

datatype fix_request =
    InvalidJson
  | FixBody "Match option" string "string option"

record fix_body =
  newContent :: "string option"
  error_f :: "js_error option"
  success_f :: bool

record fix_response =
  status_f :: nat
  body_f :: fix_body

text \<open>The body of the \<open>try\<close> block: the new content, or the exception thrown.\<close>

fun fix_try :: "fix_request \<Rightarrow> js_error + string" where
  "fix_try InvalidJson = Inl SyntaxError"
| "fix_try (FixBody None replacement content) = Inl TypeError"
| "fix_try (FixBody (Some m) replacement None) = Inl TypeError"
| "fix_try (FixBody (Some m) replacement (Some content)) =
     Inr (applyReplacement content m replacement)"

definition POST_fix :: "fix_request \<Rightarrow> fix_response" where
  "POST_fix req =
     (case fix_try req of
        Inr new \<Rightarrow>
          \<lparr>status_f = 200,
           body_f = \<lparr>newContent = Some new, error_f = None, success_f = True\<rparr>\<rparr>
      | Inl err \<Rightarrow>
          \<lparr>status_f = 500,
           body_f = \<lparr>newContent = None, error_f = Some err, success_f = True\<rparr>\<rparr>)"

section \<open>Plain objects used as dictionaries\<close>

text \<open>
  \<open>fixedMatches\<close> and \<open>sentenceMap\<close> are plain objects (\<open>{}\<close>) indexed by a string.
  Reading \<open>obj[k]\<close> finds the object's own property, and otherwise follows the prototype
  chain to \<open>Object.prototype\<close>, whose properties are functions (or, for \<open>__proto__\<close>, the
  prototype object itself): all of them truthy, none of them an array.
\<close>

definition ObjectPrototypeKeys :: "string list" where
  "ObjectPrototypeKeys =
     [''constructor'', ''hasOwnProperty'', ''isPrototypeOf'', ''propertyIsEnumerable'',
      ''toLocaleString'', ''toString'', ''valueOf'', ''__proto__'',
      ''__defineGetter__'', ''__defineSetter__'', ''__lookupGetter__'', ''__lookupSetter__'']"

datatype 'v js_prop = Own 'v | Inherited | Undefined

definition js_get :: "(string \<rightharpoonup> 'v) \<Rightarrow> string \<Rightarrow> 'v js_prop" where
  "js_get obj k =
     (case obj k of
        Some v \<Rightarrow> Own v
      | None \<Rightarrow> if k \<in> set ObjectPrototypeKeys then Inherited else Undefined)"

section \<open>The components' state\<close>

record LanguageData =
  name_l :: string
  code_l :: string

record Corrections =
  matches :: "Match list"
  language_c :: LanguageData

record ReadabilityResponse =
  success :: bool
  message_r :: "string option"
  corrections :: "Corrections option"
  error_r :: "string option"

text \<open>
  The state variables both components declare with \<open>useState\<close>; \<open>GrammarChecker\<close> adds
  the selected language, \<open>InputContent\<close> its submitting flag, the form's content field
  and the notifications it has raised.
\<close>

record ui_state =
  content :: string
  results :: "ReadabilityResponse option"
  loading :: bool
  fixedMatches :: "string \<rightharpoonup> bool"

record checker_state = ui_state +
  language :: string

datatype toast = ToastSuccess string "string option" | ToastError string string

record input_state = ui_state +
  isSubmitting :: bool
  form_content :: string
  toasts :: "toast list"

text \<open>
  What \<open>axios.post\<close> gives back: the promise resolves with the response data (a 2xx
  status), or rejects, possibly carrying the \<open>message\<close> of the error response's data.
\<close>

datatype axios_outcome = Resolved ReadabilityResponse | Rejected "string option"

definition failedResults :: ReadabilityResponse where
  "failedResults =
     \<lparr>success = False, message_r = None, corrections = None,
      error_r = Some ''Failed to analyze content''\<rparr>"

text \<open>A submission has failed when the request rejects or answers \<open>success: false\<close>.\<close>

definition oracleFailed :: "axios_outcome \<Rightarrow> bool" where
  "oracleFailed out = (case out of Rejected msg \<Rightarrow> True | Resolved r \<Rightarrow> \<not> success r)"

subsection \<open>GrammarChecker: handleSubmit\<close>

text \<open>
  \<open>handleSubmit\<close> runs in two parts around the \<open>await\<close>: before the request it sets the
  loading flag and replaces \<open>fixedMatches\<close> by \<open>{}\<close>; when the request settles it installs
  the results.
\<close>

definition handleSubmit_start :: "checker_state \<Rightarrow> checker_state" where
  "handleSubmit_start st = st\<lparr>loading := True, fixedMatches := Map.empty\<rparr>"

definition handleSubmit_settle :: "checker_state \<Rightarrow> axios_outcome \<Rightarrow> checker_state" where
  "handleSubmit_settle st out =
     (case out of
        Resolved r \<Rightarrow> st\<lparr>results := Some r, loading := False\<rparr>
      | Rejected msg \<Rightarrow> st\<lparr>results := Some failedResults, loading := False\<rparr>)"

definition handleSubmit :: "checker_state \<Rightarrow> axios_outcome \<Rightarrow> checker_state" where
  "handleSubmit st out = handleSubmit_settle (handleSubmit_start st) out"

subsection \<open>InputContent: onsubmit\<close>

definition onsubmit_start :: "input_state \<Rightarrow> input_state" where
  "onsubmit_start st = st\<lparr>isSubmitting := True, fixedMatches := Map.empty\<rparr>"

definition onsubmit_settle :: "input_state \<Rightarrow> axios_outcome \<Rightarrow> input_state" where
  "onsubmit_settle st out =
     (case out of
        Resolved r \<Rightarrow>
          if success r then
            st\<lparr>toasts := toasts st @ [ToastSuccess ''Analysis complete'' (message_r r)],
               results := Some r, isSubmitting := False\<rparr>
          else
            st\<lparr>results := Some failedResults,
               toasts := toasts st @
                 [ToastError ''Failed''
                    (case message_r r of Some msg \<Rightarrow> msg | None \<Rightarrow> ''Unknown error'')],
               isSubmitting := False\<rparr>
      | Rejected msg \<Rightarrow>
          st\<lparr>results := Some failedResults,
             toasts := toasts st @
               [ToastError ''Error''
                  (case msg of Some t \<Rightarrow> t | None \<Rightarrow> ''Failed to analyze content'')],
             isSubmitting := False\<rparr>)"

definition onsubmit :: "input_state \<Rightarrow> axios_outcome \<Rightarrow> input_state" where
  "onsubmit st out = onsubmit_settle (onsubmit_start st) out"

subsection \<open>handleFix\<close>

text \<open>The guard \<open>if (!results?.corrections) return\<close> of both \<open>handleFix\<close> functions.\<close>

definition hasCorrections :: "'a ui_state_scheme \<Rightarrow> bool" where
  "hasCorrections st =
     (case results st of None \<Rightarrow> False | Some r \<Rightarrow> corrections r \<noteq> None)"

text \<open>\<open>GrammarChecker\<close> computes the new content itself.\<close>

definition handleFix :: "checker_state \<Rightarrow> Match \<Rightarrow> string \<Rightarrow> checker_state" where
  "handleFix st m replacement =
     (if \<not> hasCorrections st then st
      else st\<lparr>content := applyReplacement (content st) m replacement,
              fixedMatches := (fixedMatches st)(matchKey m \<mapsto> True)\<rparr>)"

text \<open>
  \<open>InputContent\<close> posts \<open>{match, replacement, content}\<close> to the insert-keyword route.
  \<open>delivered\<close> says whether the request and its response get through; a response with
  a status outside 2xx makes \<open>axios.post\<close> reject, as a network failure does.
\<close>

definition handleFix_remote :: "input_state \<Rightarrow> Match \<Rightarrow> string \<Rightarrow> bool \<Rightarrow> input_state" where
  "handleFix_remote st m replacement delivered =
     (if \<not> hasCorrections st then st
      else
        let resp = POST_fix (FixBody (Some m) replacement (Some (content st)));
            failed = st\<lparr>toasts := toasts st @
                          [ToastError ''Error'' ''Failed to insert the suggestion''],
                        loading := False\<rparr>
        in if delivered \<and> status_f resp = 200 then
             (case newContent (body_f resp) of
                Some new \<Rightarrow>
                  st\<lparr>toasts := toasts st @ [ToastSuccess ''Inserted!'' None],
                     content := new, form_content := new,
                     fixedMatches := (fixedMatches st)(matchKey m \<mapsto> True),
                     loading := False\<rparr>
              | None \<Rightarrow> failed)
           else failed)"

section \<open>Classifying and grouping the matches\<close>

text \<open>
  \<open>separateMatches\<close> walks the matches once, pushing each onto one of two arrays. The
  test \<open>!fixedMatches[matchKey]\<close> reads the plain object, prototype chain included.
\<close>

definition isFixed :: "(string \<rightharpoonup> bool) \<Rightarrow> string \<Rightarrow> bool" where
  "isFixed fm k = (case js_get fm k of Own b \<Rightarrow> b | Inherited \<Rightarrow> True | Undefined \<Rightarrow> False)"

record Separated =
  corrections_s :: "Match list"
  suggestions :: "Match list"

fun separateLoop :: "(string \<rightharpoonup> bool) \<Rightarrow> Match list \<Rightarrow> Separated \<Rightarrow> Separated" where
  "separateLoop fm [] acc = acc"
| "separateLoop fm (m # ms) acc =
     (if length (replacements m) = 1 \<and> \<not> isFixed fm (matchKey m)
      then separateLoop fm ms (acc\<lparr>corrections_s := corrections_s acc @ [m]\<rparr>)
      else separateLoop fm ms (acc\<lparr>suggestions := suggestions acc @ [m]\<rparr>))"

definition separateMatches :: "(string \<rightharpoonup> bool) \<Rightarrow> Match list \<Rightarrow> Separated" where
  "separateMatches fm ms = separateLoop fm ms \<lparr>corrections_s = [], suggestions = []\<rparr>"

text \<open>
  \<open>groupMatchesBySentence\<close>: for each match, \<open>if (!sentenceMap[sentence])\<close> creates the
  empty array, then \<open>sentenceMap[sentence].push(match)\<close> appends. When the sentence is
  the name of a property of \<open>Object.prototype\<close>, the test finds the inherited value,
  no array is created, and \<open>push\<close> is not a function of that value: a \<open>TypeError\<close>.
\<close>

definition groupStep ::
  "(string \<rightharpoonup> Match list) \<Rightarrow> Match \<Rightarrow> js_error + (string \<rightharpoonup> Match list)" where
  "groupStep sentenceMap m =
     (let sentence = text_c (context_m m);
          sm = (case js_get sentenceMap sentence of
                  Undefined \<Rightarrow> sentenceMap(sentence \<mapsto> [])
                | Own v \<Rightarrow> sentenceMap
                | Inherited \<Rightarrow> sentenceMap)
      in case js_get sm sentence of
           Own ms \<Rightarrow> Inr (sm(sentence \<mapsto> ms @ [m]))
         | Inherited \<Rightarrow> Inl TypeError
         | Undefined \<Rightarrow> Inl TypeError)"

fun groupLoop ::
  "(string \<rightharpoonup> Match list) \<Rightarrow> Match list \<Rightarrow> js_error + (string \<rightharpoonup> Match list)" where
  "groupLoop sentenceMap [] = Inr sentenceMap"
| "groupLoop sentenceMap (m # ms) =
     (case groupStep sentenceMap m of
        Inl err \<Rightarrow> Inl err
      | Inr sm \<Rightarrow> groupLoop sm ms)"

definition groupMatchesBySentence :: "Match list \<Rightarrow> js_error + (string \<rightharpoonup> Match list)" where
  "groupMatchesBySentence ms = groupLoop Map.empty ms"

text \<open>
  What \<open>GrammarChecker\<close> computes at every rendering, from its state: the two lists of
  matches (empty while there are no results with matches), then the groups of each. An
  exception thrown here leaves the component without a rendering.
\<close>

definition separated :: "checker_state \<Rightarrow> Separated" where
  "separated st =
     (case results st of
        None \<Rightarrow> \<lparr>corrections_s = [], suggestions = []\<rparr>
      | Some r \<Rightarrow>
          (case corrections r of
             None \<Rightarrow> \<lparr>corrections_s = [], suggestions = []\<rparr>
           | Some c \<Rightarrow> separateMatches (fixedMatches st) (matches c)))"

definition sentenceGroups ::
  "checker_state \<Rightarrow> js_error + (string \<rightharpoonup> Match list) \<times> (string \<rightharpoonup> Match list)" where
  "sentenceGroups st =
     (case groupMatchesBySentence (corrections_s (separated st)) of
        Inl err \<Rightarrow> Inl err
      | Inr correctionGroups \<Rightarrow>
          (case groupMatchesBySentence (suggestions (separated st)) of
             Inl err \<Rightarrow> Inl err
           | Inr suggestionGroups \<Rightarrow> Inr (correctionGroups, suggestionGroups)))"

section \<open>The analyze route\<close>

subsection \<open>The input schema\<close>

text \<open>
  \<^verbatim>\<open>z.object({ content: z.string().min(5, ...).max(800, ...), language: z.string().optional() })\<close>
  A field of the request body is absent, a string, or a value of another JSON type (the
  name of that type is kept, as it appears in the issue's message). \<open>safeParse\<close> collects
  the issues of every field, each with the path of its field, and succeeds when there is
  none. The string length it compares is the number of UTF-16 code units.
\<close>

datatype json_field = Absent | JString string | JOther string

datatype json_body = NonObject string | ObjectBody json_field json_field

datatype zod_code = invalid_type | too_small | too_big

record ZodIssue =
  code_z :: zod_code
  path_z :: "string list"
  message_z :: string

record ParsedInput =
  content_p :: string
  language_p :: "string option"

definition contentIssues :: "json_field \<Rightarrow> ZodIssue list" where
  "contentIssues f =
     (case f of
        Absent \<Rightarrow> [\<lparr>code_z = invalid_type, path_z = [''content''], message_z = ''Required''\<rparr>]
      | JOther t \<Rightarrow>
          [\<lparr>code_z = invalid_type, path_z = [''content''],
            message_z = ''Expected string, received '' @ t\<rparr>]
      | JString s \<Rightarrow>
          (if length s < 5
           then [\<lparr>code_z = too_small, path_z = [''content''],
                  message_z = ''Content must be at least 5 characters long''\<rparr>]
           else []) @
          (if length s > 800
           then [\<lparr>code_z = too_big, path_z = [''content''],
                  message_z = ''content must be less than 200 characters long''\<rparr>]
           else []))"

definition languageIssues :: "json_field \<Rightarrow> ZodIssue list" where
  "languageIssues f =
     (case f of
        Absent \<Rightarrow> []
      | JString s \<Rightarrow> []
      | JOther t \<Rightarrow>
          [\<lparr>code_z = invalid_type, path_z = [''language''],
            message_z = ''Expected string, received '' @ t\<rparr>])"

fun safeParse :: "json_body \<Rightarrow> ZodIssue list + ParsedInput" where
  "safeParse (NonObject t) =
     Inl [\<lparr>code_z = invalid_type, path_z = [], message_z = ''Expected object, received '' @ t\<rparr>]"
| "safeParse (ObjectBody c l) =
     (case contentIssues c @ languageIssues l of
        [] \<Rightarrow>
          Inr \<lparr>content_p = (case c of JString s \<Rightarrow> s | _ \<Rightarrow> []),
               language_p = (case l of JString s \<Rightarrow> Some s | _ \<Rightarrow> None)\<rparr>
      | i # issues \<Rightarrow> Inl (i # issues))"

subsection \<open>The route\<close>

text \<open>
  A request carries a JSON body, or one that \<open>req.json()\<close> cannot read. The grammar
  service is a parameter: what it answers to a text and a language. The route returns its
  response together with the calls it made to the service, in order.
\<close>

datatype analyze_request = BadJson | JsonBody json_body

datatype lt_outcome =
    LtOk Corrections
  | LtHttpError nat "string option"
  | LtNoResponse

record analyze_body =
  success_a :: bool
  message_a :: "string option"
  errors_a :: "ZodIssue list option"
  corrections_a :: "Corrections option"
  error_a :: "string option"

record analyze_response =
  status_a :: nat
  body_a :: analyze_body

definition supportedLanguages :: "string list" where
  "supportedLanguages = [''en'', ''de'', ''fr'', ''es'', ''it'']"

definition coerceLanguage :: "string option \<Rightarrow> string" where
  "coerceLanguage l =
     (let language = (case l of None \<Rightarrow> ''en'' | Some v \<Rightarrow> v)
      in if language \<in> set supportedLanguages then language else ''en'')"

text \<open>The \<open>catch\<close> block, for an error with no response and for an error response.\<close>

definition catchResponse :: "(nat \<times> string option) option \<Rightarrow> analyze_response" where
  "catchResponse resp =
     (let statusCode = (case resp of Some (st, d) \<Rightarrow> if st = 0 then 500 else st | None \<Rightarrow> 500);
          errorMsg = (case resp of
                        Some (st, Some msg) \<Rightarrow> if msg = [] then ''Failed to connect to API'' else msg
                      | _ \<Rightarrow> ''Failed to connect to API'')
      in \<lparr>status_a = statusCode,
          body_a = \<lparr>success_a = False, message_a = None, errors_a = None,
                    corrections_a = None, error_a = Some errorMsg\<rparr>\<rparr>)"

definition POST_analyze ::
  "(string \<Rightarrow> string \<Rightarrow> lt_outcome) \<Rightarrow> analyze_request \<Rightarrow> analyze_response \<times> (string \<times> string) list" where
  "POST_analyze languagetool req =
     (case req of
        BadJson \<Rightarrow> (catchResponse None, [])
      | JsonBody body \<Rightarrow>
          (case safeParse body of
             Inl issues \<Rightarrow>
               (\<lparr>status_a = 400,
                 body_a = \<lparr>success_a = False, message_a = Some ''Invalid input'',
                           errors_a = Some issues, corrections_a = None, error_a = None\<rparr>\<rparr>, [])
           | Inr parsed \<Rightarrow>
               let lang = coerceLanguage (language_p parsed) in
               if content_p parsed = [] then
                 (\<lparr>status_a = 400,
                   body_a = \<lparr>success_a = False,
                             message_a = Some ''Content is required and must be a string.'',
                             errors_a = None, corrections_a = None, error_a = None\<rparr>\<rparr>, [])
               else
                 (case languagetool (content_p parsed) lang of
                    LtOk d \<Rightarrow>
                      \<lparr>status_a = 200,
                       body_a = \<lparr>success_a = True,
                                 message_a = Some ''Content analyzed successfully'',
                                 errors_a = None, corrections_a = Some d, error_a = None\<rparr>\<rparr>
                  | LtHttpError st msg \<Rightarrow> catchResponse (Some (st, msg))
                  | LtNoResponse \<Rightarrow> catchResponse None,
                  [(content_p parsed, lang)])))"

section \<open>Example inputs\<close>

text \<open>The matches and states at which the properties below are evaluated.\<close>

definition quickMatch :: Match where
  "quickMatch =
     \<lparr>message = ''Possible spelling mistake found.'', shortMessage = ''Spelling mistake'',
      replacements = [\<lparr>value_r = ''slow''\<rparr>], offset = 4, length_m = 5,
      context_m = \<lparr>text_c = ''The quick brown fox''\<rparr>\<rparr>"

definition staleMatch :: Match where
  "staleMatch =
     \<lparr>message = ''Possible spelling mistake found.'', shortMessage = ''Spelling mistake'',
      replacements = [\<lparr>value_r = ''XY''\<rparr>], offset = 8, length_m = 5,
      context_m = \<lparr>text_c = ''0123456789''\<rparr>\<rparr>"

definition readyResults :: "Match list \<Rightarrow> ReadabilityResponse" where
  "readyResults ms =
     \<lparr>success = True, message_r = Some ''Content analyzed successfully'',
      corrections = Some \<lparr>matches = ms, language_c = \<lparr>name_l = ''English'', code_l = ''en''\<rparr>\<rparr>,
      error_r = None\<rparr>"

definition checkerReady :: "string \<Rightarrow> Match list \<Rightarrow> checker_state" where
  "checkerReady c ms =
     \<lparr>content = c, results = Some (readyResults ms), loading = False,
      fixedMatches = Map.empty, language = ''en''\<rparr>"

definition inputReady :: "string \<Rightarrow> Match list \<Rightarrow> input_state" where
  "inputReady c ms =
     \<lparr>content = c, results = Some (readyResults ms), loading = False,
      fixedMatches = Map.empty, isSubmitting = False, form_content = c, toasts = []\<rparr>"

definition quickMatch2 :: Match where
  "quickMatch2 =
     \<lparr>message = ''Possible spelling mistake. Did you mean slow?'', shortMessage = [],
      replacements = [\<lparr>value_r = ''slow''\<rparr>, \<lparr>value_r = ''quack''\<rparr>], offset = 4,
      length_m = 5, context_m = \<lparr>text_c = ''The quick brown fox''\<rparr>\<rparr>"

definition shortMatch :: Match where
  "shortMatch =
     \<lparr>message = ''Grammatical error'', shortMessage = [],
      replacements = [\<lparr>value_r = ''doesn't''\<rparr>], offset = 4, length_m = 4,
      context_m = \<lparr>text_c = ''She dont like apples.''\<rparr>\<rparr>"

definition ctorMatch :: Match where
  "ctorMatch =
     \<lparr>message = ''This sentence does not start with an uppercase letter.'',
      shortMessage = [], replacements = [\<lparr>value_r = ''Constructor''\<rparr>], offset = 0,
      length_m = 11, context_m = \<lparr>text_c = ''constructor''\<rparr>\<rparr>"

definition fixedState :: checker_state where
  "fixedState =
     handleFix (checkerReady ''She dont like apples.'' [shortMatch]) shortMatch ''doesn't''"

definition okService :: "string \<Rightarrow> string \<Rightarrow> lt_outcome" where
  "okService t l = LtOk \<lparr>matches = [], language_c = \<lparr>name_l = ''English'', code_l = l\<rparr>\<rparr>"

section \<open>Properties\<close>

subsection \<open>substring and the applicator\<close>

lemma substring_prefix: "substring s 0 (Some n) = take (nat n) s"
  by (auto simp add: substring_def clampIndex_def Let_def min_def max_def)

lemma substring_suffix: "substring s n None = drop (nat n) s"
  by (auto simp add: substring_def clampIndex_def Let_def min_def max_def)

lemma applyReplacement_eq:
  "applyReplacement c m r = take (nat (offset m)) c @ r @ drop (nat (offset m + length_m m)) c"
  by (simp add: applyReplacement_def Let_def substring_prefix substring_suffix)

lemma POST_fix_ok:
  "POST_fix (FixBody (Some m) r (Some c)) =
     \<lparr>status_f = 200,
      body_f = \<lparr>newContent = Some (applyReplacement c m r), error_f = None, success_f = True\<rparr>\<rparr>"
  by (simp add: POST_fix_def)

lemma handleFix_content:
  "hasCorrections st \<Longrightarrow> content (handleFix st m r) = applyReplacement (content st) m r"
  by (simp add: handleFix_def)

lemma handleFix_remote_content:
  "hasCorrections st \<Longrightarrow>
   content (handleFix_remote st m r True) = applyReplacement (content st) m r"
  by (simp add: handleFix_remote_def POST_fix_ok Let_def)

text \<open>
  C1. When \<open>offset + length \<le> len(content)\<close>, applying a replacement gives
  \<open>content[0:offset] + replacement + content[offset+length:]\<close>: so answers the
  insert-keyword route (status 200), and so both \<open>handleFix\<close> functions set the content
  (once results with corrections are there, \<open>InputContent\<close> when its request gets
  through). For a match with non-negative offset and length the new content is as long
  as the old one, less the flagged span, plus the replacement.
\<close>

theorem applicator_in_range:
  assumes "offset m + length_m m \<le> int (length c)"
    and "hasCorrections st" and "content st = c"
    and "hasCorrections st'" and "content st' = c"
  shows "POST_fix (FixBody (Some m) r (Some c)) =
           \<lparr>status_f = 200,
            body_f = \<lparr>newContent =
                        Some (take (nat (offset m)) c @ r @ drop (nat (offset m + length_m m)) c),
                      error_f = None, success_f = True\<rparr>\<rparr>
       \<and> content (handleFix st m r) =
           take (nat (offset m)) c @ r @ drop (nat (offset m + length_m m)) c
       \<and> content (handleFix_remote st' m r True) =
           take (nat (offset m)) c @ r @ drop (nat (offset m + length_m m)) c
       \<and> (0 \<le> offset m \<and> 0 \<le> length_m m \<longrightarrow>
            int (length (content (handleFix st m r))) =
              int (length c) - length_m m + int (length r))"
proof -
  let ?new = "take (nat (offset m)) c @ r @ drop (nat (offset m + length_m m)) c"
  have eq: "applyReplacement c m r = ?new"
    by (rule applyReplacement_eq)
  have route: "POST_fix (FixBody (Some m) r (Some c)) =
           \<lparr>status_f = 200,
            body_f = \<lparr>newContent = Some ?new, error_f = None, success_f = True\<rparr>\<rparr>"
    by (simp add: POST_fix_ok eq)
  have local: "content (handleFix st m r) = ?new"
    using assms(2,3) by (simp add: handleFix_content eq)
  have remote: "content (handleFix_remote st' m r True) = ?new"
    using assms(4,5) by (simp add: handleFix_remote_content eq)
  have len: "0 \<le> offset m \<and> 0 \<le> length_m m \<longrightarrow>
            int (length (content (handleFix st m r))) =
              int (length c) - length_m m + int (length r)"
    using assms(1) by (auto simp: local)
  from route local remote len show ?thesis by blast
qed

text \<open>The example of the specification: "quick" at offset 4, length 5, replaced by "slow".\<close>

theorem applicator_in_range_witness:
  "POST_fix (FixBody (Some quickMatch) ''slow'' (Some ''The quick brown fox'')) =
     \<lparr>status_f = 200,
      body_f = \<lparr>newContent = Some ''The slow brown fox'', error_f = None, success_f = True\<rparr>\<rparr>
   \<and> content (handleFix (checkerReady ''The quick brown fox'' [quickMatch]) quickMatch ''slow'') =
       ''The slow brown fox''
   \<and> content (handleFix_remote (inputReady ''The quick brown fox'' [quickMatch])
                quickMatch ''slow'' True) = ''The slow brown fox''
   \<and> int (length (content (handleFix (checkerReady ''The quick brown fox'' [quickMatch])
                quickMatch ''slow''))) = 19 - 5 + 4"
  using applicator_in_range[of quickMatch "''The quick brown fox''"
          "checkerReady ''The quick brown fox'' [quickMatch]"
          "inputReady ''The quick brown fox'' [quickMatch]" "''slow''"]
  by (simp add: quickMatch_def checkerReady_def inputReady_def readyResults_def
        hasCorrections_def)

text \<open>
  C2 (as stated: out of range, the application fails with an error and the content is
  unchanged). It does not hold: for a content of length 10 and a match at offset 8 of
  length 5, nothing is thrown, the route answers 200 and the content is cut at offset 8.
\<close>

theorem out_of_range_counterexample:
  "offset staleMatch + length_m staleMatch > int (length ''0123456789'')
   \<and> fix_try (FixBody (Some staleMatch) ''XY'' (Some ''0123456789'')) = Inr ''01234567XY''
   \<and> POST_fix (FixBody (Some staleMatch) ''XY'' (Some ''0123456789'')) =
       \<lparr>status_f = 200,
        body_f = \<lparr>newContent = Some ''01234567XY'', error_f = None, success_f = True\<rparr>\<rparr>
   \<and> content (handleFix (checkerReady ''0123456789'' [staleMatch]) staleMatch ''XY'') =
       ''01234567XY''
   \<and> content (handleFix (checkerReady ''0123456789'' [staleMatch]) staleMatch ''XY'') \<noteq>
       content (checkerReady ''0123456789'' [staleMatch])"
  by (simp add: staleMatch_def POST_fix_def applyReplacement_eq handleFix_def checkerReady_def
        readyResults_def hasCorrections_def)

text \<open>
  C2 (amended). When \<open>offset + length > len(content)\<close>, applying a replacement raises no
  error: the result is \<open>content[0:offset]\<close> followed by the replacement, the part after
  the flagged span being empty. The route answers 200 with that content, and the local
  \<open>handleFix\<close> installs it.
\<close>

theorem applicator_out_of_range:
  assumes "offset m + length_m m > int (length c)"
    and "hasCorrections st" and "content st = c"
  shows "fix_try (FixBody (Some m) r (Some c)) = Inr (take (nat (offset m)) c @ r)
       \<and> POST_fix (FixBody (Some m) r (Some c)) =
           \<lparr>status_f = 200,
            body_f = \<lparr>newContent = Some (take (nat (offset m)) c @ r),
                      error_f = None, success_f = True\<rparr>\<rparr>
       \<and> content (handleFix st m r) = take (nat (offset m)) c @ r"
  using assms by (simp add: POST_fix_def applyReplacement_eq handleFix_def)

theorem applicator_out_of_range_witness:
  "int (length ''0123456789'') = 10
   \<and> fix_try (FixBody (Some staleMatch) ''XY'' (Some ''0123456789'')) =
       Inr (''01234567'' @ ''XY'')
   \<and> content (handleFix (checkerReady ''0123456789'' [staleMatch]) staleMatch ''XY'') =
       ''01234567'' @ ''XY''"
  using applicator_out_of_range[of "''0123456789''" staleMatch
          "checkerReady ''0123456789'' [staleMatch]" "''XY''"]
  by (simp add: staleMatch_def checkerReady_def readyResults_def hasCorrections_def)

text \<open>
  C10. The insert-keyword route answers 500 exactly when its \<open>try\<close> block throws; the
  body it sends then carries the error and \<open>success: true\<close>, and no \<open>newContent\<close>. So
  \<open>success\<close> is \<open>true\<close> in every response of the route.
\<close>

theorem fix_error_branch:
  "(status_f (POST_fix req) = 500 \<longleftrightarrow> (\<exists>err. fix_try req = Inl err))
   \<and> (\<forall>err. fix_try req = Inl err \<longrightarrow>
        POST_fix req =
          \<lparr>status_f = 500,
           body_f = \<lparr>newContent = None, error_f = Some err, success_f = True\<rparr>\<rparr>)
   \<and> success_f (body_f (POST_fix req))"
  by (cases "fix_try req") (simp_all add: POST_fix_def)

theorem fix_error_branch_witness:
  "fix_try InvalidJson = Inl SyntaxError
   \<and> POST_fix InvalidJson =
       \<lparr>status_f = 500,
        body_f = \<lparr>newContent = None, error_f = Some SyntaxError, success_f = True\<rparr>\<rparr>
   \<and> fix_try (FixBody None ''slow'' (Some ''The quick brown fox'')) = Inl TypeError
   \<and> newContent (body_f (POST_fix (FixBody None ''slow'' (Some ''The quick brown fox'')))) = None
   \<and> success_f (body_f (POST_fix (FixBody None ''slow'' (Some ''The quick brown fox''))))"
  using fix_error_branch[of InvalidJson]
    fix_error_branch[of "FixBody None ''slow'' (Some ''The quick brown fox'')"]
  by simp

subsection \<open>The key of a match\<close>

lemma digitChar_mem: "d < 10 \<Longrightarrow> digitChar d \<in> set ''0123456789''"
  unfolding digitChar_def by (rule nth_mem) simp

lemma digits_hd: "digits n \<noteq> [] \<and> hd (digits n) \<in> set ''0123456789''"
proof (induction n rule: digits.induct)
  case (1 n)
  show ?case
  proof (cases "n < 10")
    case True
    then show ?thesis using digitChar_mem[of n] by (simp del: set_simps)
  next
    case False
    with 1 show ?thesis by (subst digits.simps, subst (2) digits.simps) (simp del: digits.simps set_simps)
  qed
qed

lemma numberToString_hd:
  "numberToString i \<noteq> [] \<and> hd (numberToString i) \<in> set ''-0123456789''"
  using digits_hd[of "nat i"] by (auto simp: numberToString_def)

lemma matchKey_hd: "hd (matchKey m) \<in> set ''-0123456789''"
  using numberToString_hd[of "offset m"] by (simp add: matchKey_def del: set_simps)

lemma proto_hd: "k \<in> set ObjectPrototypeKeys \<Longrightarrow> hd k \<notin> set ''-0123456789''"
  by (auto simp: ObjectPrototypeKeys_def)

lemma matchKey_not_inherited: "matchKey m \<notin> set ObjectPrototypeKeys"
  using matchKey_hd proto_hd by blast

lemma isFixed_matchKey: "isFixed fm (matchKey m) \<longleftrightarrow> fm (matchKey m) = Some True"
  by (simp add: isFixed_def js_get_def matchKey_not_inherited split: option.splits)

text \<open>
  C5. The key of a match is composed of its offset, its length and the first 20
  characters of its message (the whole message when it has at most 20), each separated
  by a hyphen. It is a function of these three: two matches that agree on them have the
  same key, whatever their replacements.
\<close>

theorem fingerprint_composition:
  "matchKey m =
     numberToString (offset m) @ ''-'' @ numberToString (length_m m) @ ''-'' @
     take 20 (message m)
   \<and> (length (message m) \<le> 20 \<longrightarrow>
        matchKey m =
          numberToString (offset m) @ ''-'' @ numberToString (length_m m) @ ''-'' @ message m)
   \<and> (offset m = offset m' \<and> length_m m = length_m m' \<and>
        take 20 (message m) = take 20 (message m')
        \<longrightarrow> matchKey m = matchKey m')"
  by (simp add: matchKey_def substring_prefix)

theorem fingerprint_composition_witness:
  "matchKey shortMatch = ''4-4-Grammatical error''
   \<and> matchKey quickMatch = ''4-5-Possible spelling mi''
   \<and> replacements quickMatch \<noteq> replacements quickMatch2
   \<and> matchKey quickMatch = matchKey quickMatch2"
proof -
  have short: "matchKey shortMatch = ''4-4-Grammatical error''"
    using fingerprint_composition[of shortMatch shortMatch]
    by (simp add: shortMatch_def numberToString_def digitChar_def)
  have long: "matchKey quickMatch = ''4-5-Possible spelling mi''"
    using fingerprint_composition[of quickMatch quickMatch]
    by (simp add: quickMatch_def numberToString_def digitChar_def)
  have differ: "replacements quickMatch \<noteq> replacements quickMatch2"
    by (simp add: quickMatch_def quickMatch2_def)
  have same: "matchKey quickMatch = matchKey quickMatch2"
    using fingerprint_composition[of quickMatch quickMatch2, THEN conjunct2, THEN conjunct2]
    by (simp add: quickMatch_def quickMatch2_def)
  from short long differ same show ?thesis by blast
qed

subsection \<open>The classifier\<close>

lemma separateLoop_filter:
  "separateLoop fm ms acc =
     \<lparr>corrections_s = corrections_s acc @
         filter (\<lambda>m. length (replacements m) = 1 \<and> fm (matchKey m) \<noteq> Some True) ms,
      suggestions = suggestions acc @
         filter (\<lambda>m. \<not> (length (replacements m) = 1 \<and> fm (matchKey m) \<noteq> Some True)) ms\<rparr>"
  by (induction ms arbitrary: acc) (simp_all add: isFixed_matchKey)

lemma handleFix_fixed:
  "hasCorrections st \<Longrightarrow>
   fixedMatches (handleFix st m r) = (fixedMatches st)(matchKey m \<mapsto> True)"
  by (simp add: handleFix_def)

text \<open>
  C3. \<open>separateMatches\<close> puts a match into the corrections exactly when it has one
  replacement and its key is not recorded as fixed, and into the suggestions otherwise;
  both lists are the input filtered, so they keep its order. A match with one
  replacement that \<open>handleFix\<close> has recorded is a suggestion, and no correction, at the
  next classification of the same matches.
\<close>

theorem classifier_partition:
  "corrections_s (separateMatches fm ms) =
     filter (\<lambda>m. length (replacements m) = 1 \<and> fm (matchKey m) \<noteq> Some True) ms
   \<and> suggestions (separateMatches fm ms) =
     filter (\<lambda>m. \<not> (length (replacements m) = 1 \<and> fm (matchKey m) \<noteq> Some True)) ms
   \<and> (hasCorrections st \<and> m \<in> set ms \<and> length (replacements m) = 1 \<longrightarrow>
        m \<in> set (suggestions (separateMatches (fixedMatches (handleFix st m r)) ms))
        \<and> m \<notin> set (corrections_s (separateMatches (fixedMatches (handleFix st m r)) ms)))"
  by (simp add: separateMatches_def separateLoop_filter handleFix_fixed)

theorem classifier_partition_witness:
  "corrections_s (separateMatches Map.empty [quickMatch, quickMatch2, shortMatch]) =
     [quickMatch, shortMatch]
   \<and> suggestions (separateMatches Map.empty [quickMatch, quickMatch2, shortMatch]) = [quickMatch2]
   \<and> shortMatch \<in> set (suggestions (separateMatches
         (fixedMatches (handleFix (checkerReady ''She dont like apples.'' [shortMatch])
            shortMatch ''doesn't'')) [shortMatch]))
   \<and> shortMatch \<notin> set (corrections_s (separateMatches
         (fixedMatches (handleFix (checkerReady ''She dont like apples.'' [shortMatch])
            shortMatch ''doesn't'')) [shortMatch]))"
proof -
  have lens: "length (replacements quickMatch) = 1" "length (replacements quickMatch2) = 2"
    "length (replacements shortMatch) = 1"
    by (simp_all add: quickMatch_def quickMatch2_def shortMatch_def)
  have first: "corrections_s (separateMatches Map.empty [quickMatch, quickMatch2, shortMatch]) =
     [quickMatch, shortMatch]
   \<and> suggestions (separateMatches Map.empty [quickMatch, quickMatch2, shortMatch]) = [quickMatch2]"
    using classifier_partition[of Map.empty "[quickMatch, quickMatch2, shortMatch]"]
    by (simp add: lens)
  have ready: "hasCorrections (checkerReady ''She dont like apples.'' [shortMatch])"
    by (simp add: checkerReady_def readyResults_def hasCorrections_def)
  have second: "shortMatch \<in> set (suggestions (separateMatches
         (fixedMatches (handleFix (checkerReady ''She dont like apples.'' [shortMatch])
            shortMatch ''doesn't'')) [shortMatch]))
   \<and> shortMatch \<notin> set (corrections_s (separateMatches
         (fixedMatches (handleFix (checkerReady ''She dont like apples.'' [shortMatch])
            shortMatch ''doesn't'')) [shortMatch]))"
    using classifier_partition[of Map.empty "[shortMatch]"
            "checkerReady ''She dont like apples.'' [shortMatch]" shortMatch "''doesn't''",
            THEN conjunct2, THEN conjunct2] ready lens(3)
    by simp
  from first second show ?thesis by blast
qed

subsection \<open>Submitting\<close>

text \<open>
  C4. A submission empties \<open>fixedMatches\<close> before the request is sent, while the previous
  results are still in place, and it is empty when the request has settled, whatever the
  outcome: a match recorded as fixed before the submission is not fixed after it. This
  holds for \<open>handleSubmit\<close> of \<open>GrammarChecker\<close> and for \<open>onsubmit\<close> of \<open>InputContent\<close>.
\<close>

theorem tracker_reset_on_submit:
  "fixedMatches (handleSubmit_start st) = Map.empty
   \<and> results (handleSubmit_start st) = results st
   \<and> fixedMatches (handleSubmit st out) = Map.empty
   \<and> \<not> isFixed (fixedMatches (handleSubmit (handleFix st m r) out)) (matchKey m)
   \<and> fixedMatches (onsubmit_start ist) = Map.empty
   \<and> results (onsubmit_start ist) = results ist
   \<and> fixedMatches (onsubmit ist out) = Map.empty
   \<and> \<not> isFixed (fixedMatches (onsubmit (handleFix_remote ist m r d) out)) (matchKey m)"
  by (simp add: handleSubmit_def handleSubmit_start_def handleSubmit_settle_def
        onsubmit_def onsubmit_start_def onsubmit_settle_def isFixed_matchKey
        split: axios_outcome.splits)

theorem tracker_reset_on_submit_witness:
  "fixedMatches fixedState (matchKey shortMatch) = Some True
   \<and> isFixed (fixedMatches fixedState) (matchKey shortMatch)
   \<and> \<not> isFixed (fixedMatches (handleSubmit fixedState (Resolved (readyResults [shortMatch]))))
         (matchKey shortMatch)"
proof -
  have ready: "hasCorrections (checkerReady ''She dont like apples.'' [shortMatch])"
    by (simp add: checkerReady_def readyResults_def hasCorrections_def)
  have before: "fixedMatches fixedState (matchKey shortMatch) = Some True"
    by (simp add: fixedState_def handleFix_fixed[OF ready])
  have after: "\<not> isFixed (fixedMatches (handleSubmit
        (handleFix (checkerReady ''She dont like apples.'' [shortMatch]) shortMatch ''doesn't'')
        (Resolved (readyResults [shortMatch])))) (matchKey shortMatch)"
    using tracker_reset_on_submit[of "checkerReady ''She dont like apples.'' [shortMatch]"
            "Resolved (readyResults [shortMatch])" shortMatch "''doesn't''"]
    by blast
  from before after show ?thesis
    by (simp add: isFixed_matchKey fixedState_def)
qed

text \<open>
  C7 (as stated: after a failed submission the content and the tracker are as before).
  It does not hold for the tracker: a match recorded as fixed is no longer recorded after
  a submission that fails.
\<close>

theorem failed_submit_counterexample:
  "oracleFailed (Rejected None)
   \<and> oracleFailed (Resolved failedResults)
   \<and> fixedMatches fixedState ''4-4-Grammatical error'' = Some True
   \<and> fixedMatches (handleSubmit fixedState (Rejected None)) ''4-4-Grammatical error'' = None
   \<and> fixedMatches (handleSubmit fixedState (Resolved failedResults))
         ''4-4-Grammatical error'' = None
   \<and> fixedMatches (handleSubmit fixedState (Rejected None)) \<noteq> fixedMatches fixedState"
proof -
  have before: "fixedMatches fixedState ''4-4-Grammatical error'' = Some True"
    by (simp add: fixedState_def handleFix_def checkerReady_def readyResults_def
          hasCorrections_def shortMatch_def matchKey_def substring_prefix numberToString_def
          digitChar_def)
  have after: "fixedMatches (handleSubmit fixedState out) = Map.empty" for out
    by (simp add: handleSubmit_def handleSubmit_start_def handleSubmit_settle_def
          split: axios_outcome.splits)
  have differ: "fixedMatches (handleSubmit fixedState (Rejected None)) \<noteq>
      fixedMatches fixedState"
  proof
    assume "fixedMatches (handleSubmit fixedState (Rejected None)) = fixedMatches fixedState"
    with after[of "Rejected None"] have "fixedMatches fixedState = Map.empty"
      by simp
    with before show False
      by simp
  qed
  have failed: "oracleFailed (Rejected None)" "oracleFailed (Resolved failedResults)"
    by (simp_all add: oracleFailed_def failedResults_def)
  from failed before after differ show ?thesis
    by simp
qed

text \<open>
  C7 (amended). When the request of a submission rejects or answers \<open>success: false\<close>,
  the content is what it was before the submission, and \<open>fixedMatches\<close> is empty: it was
  reset when the submission was issued.
\<close>

theorem failed_submit_effect:
  assumes "oracleFailed out"
  shows "content (handleSubmit st out) = content st
       \<and> fixedMatches (handleSubmit st out) = Map.empty
       \<and> content (onsubmit ist out) = content ist
       \<and> fixedMatches (onsubmit ist out) = Map.empty
       \<and> results (onsubmit ist out) = Some failedResults"
  using assms
  by (simp add: handleSubmit_def handleSubmit_start_def handleSubmit_settle_def
        onsubmit_def onsubmit_start_def onsubmit_settle_def oracleFailed_def
        split: axios_outcome.splits)

theorem failed_submit_effect_witness:
  "content (handleSubmit fixedState (Rejected None)) = content fixedState
   \<and> fixedMatches (handleSubmit fixedState (Rejected None)) = Map.empty
   \<and> content (onsubmit (inputReady ''She dont like apples.'' [shortMatch])
         (Resolved failedResults)) = ''She dont like apples.''
   \<and> fixedMatches (onsubmit (inputReady ''She dont like apples.'' [shortMatch])
         (Resolved failedResults)) = Map.empty"
  using failed_submit_effect[of "Rejected None" fixedState
          "inputReady ''She dont like apples.'' [shortMatch]"]
    failed_submit_effect[of "Resolved failedResults" fixedState
          "inputReady ''She dont like apples.'' [shortMatch]"]
  by (simp add: oracleFailed_def failedResults_def inputReady_def)

subsection \<open>The analyze route\<close>

lemma contentIssues_short:
  "length s < 5 \<Longrightarrow> contentIssues (JString s) =
     [\<lparr>code_z = too_small, path_z = [''content''],
       message_z = ''Content must be at least 5 characters long''\<rparr>]"
  by (simp add: contentIssues_def)

lemma contentIssues_long:
  "800 < length s \<Longrightarrow> contentIssues (JString s) =
     [\<lparr>code_z = too_big, path_z = [''content''],
       message_z = ''content must be less than 200 characters long''\<rparr>]"
  by (simp add: contentIssues_def)

lemma contentIssues_ok:
  "5 \<le> length s \<Longrightarrow> length s \<le> 800 \<Longrightarrow> contentIssues (JString s) = []"
  by (simp add: contentIssues_def)

lemma POST_analyze_invalid:
  "contentIssues c \<noteq> [] \<Longrightarrow>
   POST_analyze lt (JsonBody (ObjectBody c l)) =
     (\<lparr>status_a = 400,
       body_a = \<lparr>success_a = False, message_a = Some ''Invalid input'',
                 errors_a = Some (contentIssues c @ languageIssues l),
                 corrections_a = None, error_a = None\<rparr>\<rparr>, [])"
  by (cases "contentIssues c") (simp_all add: POST_analyze_def)

lemma POST_analyze_calls:
  assumes "5 \<le> length s" "length s \<le> 800"
  shows "snd (POST_analyze lt (JsonBody (ObjectBody (JString s) (JString v)))) =
           [(s, coerceLanguage (Some v))]"
    and "snd (POST_analyze lt (JsonBody (ObjectBody (JString s) Absent))) =
           [(s, coerceLanguage None)]"
proof -
  have ne: "s \<noteq> []" using assms(1) by auto
  show "snd (POST_analyze lt (JsonBody (ObjectBody (JString s) (JString v)))) =
           [(s, coerceLanguage (Some v))]"
    using ne by (simp add: POST_analyze_def contentIssues_ok[OF assms] languageIssues_def Let_def)
  show "snd (POST_analyze lt (JsonBody (ObjectBody (JString s) Absent))) =
           [(s, coerceLanguage None)]"
    using ne by (simp add: POST_analyze_def contentIssues_ok[OF assms] languageIssues_def Let_def)
qed

text \<open>
  C8. A content shorter than 5 or longer than 800 is answered with status 400 and the
  issues of the schema, one of them for the content and carrying the path \<open>content\<close>,
  and the grammar service is not called. A content of 5 to 800 has no issue, the input
  parses, and the service is called once, with that content.
\<close>

theorem content_length_validation:
  "(length s < 5 \<or> 800 < length s \<longrightarrow>
      POST_analyze lt (JsonBody (ObjectBody (JString s) l)) =
        (\<lparr>status_a = 400,
          body_a = \<lparr>success_a = False, message_a = Some ''Invalid input'',
                    errors_a = Some (contentIssues (JString s) @ languageIssues l),
                    corrections_a = None, error_a = None\<rparr>\<rparr>, [])
      \<and> length (contentIssues (JString s)) = 1
      \<and> map path_z (contentIssues (JString s)) = [[''content'']])
   \<and> (5 \<le> length s \<and> length s \<le> 800 \<longrightarrow>
        contentIssues (JString s) = []
      \<and> safeParse (ObjectBody (JString s) Absent) = Inr \<lparr>content_p = s, language_p = None\<rparr>
      \<and> safeParse (ObjectBody (JString s) (JString v)) = Inr \<lparr>content_p = s, language_p = Some v\<rparr>
      \<and> map fst (snd (POST_analyze lt (JsonBody (ObjectBody (JString s) Absent)))) = [s]
      \<and> map fst (snd (POST_analyze lt (JsonBody (ObjectBody (JString s) (JString v))))) = [s])"
proof -
  have bad: "POST_analyze lt (JsonBody (ObjectBody (JString s) l)) =
        (\<lparr>status_a = 400,
          body_a = \<lparr>success_a = False, message_a = Some ''Invalid input'',
                    errors_a = Some (contentIssues (JString s) @ languageIssues l),
                    corrections_a = None, error_a = None\<rparr>\<rparr>, [])
      \<and> length (contentIssues (JString s)) = 1
      \<and> map path_z (contentIssues (JString s)) = [[''content'']]"
    if "length s < 5 \<or> 800 < length s"
  proof -
    from that have one: "length (contentIssues (JString s)) = 1
        \<and> map path_z (contentIssues (JString s)) = [[''content'']]"
      by (auto simp: contentIssues_short contentIssues_long)
    then have "contentIssues (JString s) \<noteq> []" by auto
    from POST_analyze_invalid[OF this] one show ?thesis by simp
  qed
  have good: "contentIssues (JString s) = []
      \<and> safeParse (ObjectBody (JString s) Absent) = Inr \<lparr>content_p = s, language_p = None\<rparr>
      \<and> safeParse (ObjectBody (JString s) (JString v)) = Inr \<lparr>content_p = s, language_p = Some v\<rparr>
      \<and> map fst (snd (POST_analyze lt (JsonBody (ObjectBody (JString s) Absent)))) = [s]
      \<and> map fst (snd (POST_analyze lt (JsonBody (ObjectBody (JString s) (JString v))))) = [s]"
    if "5 \<le> length s \<and> length s \<le> 800"
  proof -
    from that have r: "5 \<le> length s" "length s \<le> 800" by auto
    show ?thesis
      by (simp add: contentIssues_ok[OF r] POST_analyze_calls[OF r] languageIssues_def)
  qed
  from bad good show ?thesis by blast
qed

theorem content_length_validation_witness:
  "POST_analyze okService (JsonBody (ObjectBody (JString ''Hey!'') (JString ''en''))) =
        (\<lparr>status_a = 400,
          body_a = \<lparr>success_a = False, message_a = Some ''Invalid input'',
                    errors_a = Some [\<lparr>code_z = too_small, path_z = [''content''],
                       message_z = ''Content must be at least 5 characters long''\<rparr>],
                    corrections_a = None, error_a = None\<rparr>\<rparr>, [])
   \<and> snd (POST_analyze okService (JsonBody (ObjectBody (JString (replicate 801 CHR ''a'')) Absent))) = []
   \<and> status_a (fst (POST_analyze okService (JsonBody (ObjectBody (JString (replicate 801 CHR ''a'')) Absent)))) = 400
   \<and> map fst (snd (POST_analyze okService (JsonBody (ObjectBody (JString ''She dont like apples.'') (JString ''en''))))) = [''She dont like apples.'']
   \<and> map fst (snd (POST_analyze okService (JsonBody (ObjectBody (JString (replicate 800 CHR ''a'')) Absent)))) = [replicate 800 CHR ''a'']
   \<and> map fst (snd (POST_analyze okService (JsonBody (ObjectBody (JString ''Hello'') Absent)))) = [''Hello'']"
proof -
  have a: "POST_analyze okService (JsonBody (ObjectBody (JString ''Hey!'') (JString ''en''))) =
        (\<lparr>status_a = 400,
          body_a = \<lparr>success_a = False, message_a = Some ''Invalid input'',
                    errors_a = Some [\<lparr>code_z = too_small, path_z = [''content''],
                       message_z = ''Content must be at least 5 characters long''\<rparr>],
                    corrections_a = None, error_a = None\<rparr>\<rparr>, [])"
    using content_length_validation[of "''Hey!''" okService "JString ''en''"]
    by (simp add: contentIssues_def languageIssues_def)
  have b: "snd (POST_analyze okService (JsonBody (ObjectBody (JString (replicate 801 CHR ''a'')) Absent))) = []
    \<and> status_a (fst (POST_analyze okService (JsonBody (ObjectBody (JString (replicate 801 CHR ''a'')) Absent)))) = 400"
    using content_length_validation[of "replicate 801 CHR ''a''" okService Absent]
    by simp
  have c: "map fst (snd (POST_analyze okService (JsonBody (ObjectBody (JString ''She dont like apples.'') (JString ''en''))))) = [''She dont like apples.'']"
    using content_length_validation[of "''She dont like apples.''" okService _ "''en''"]
    by simp
  have d: "map fst (snd (POST_analyze okService (JsonBody (ObjectBody (JString (replicate 800 CHR ''a'')) Absent)))) = [replicate 800 CHR ''a'']"
    using content_length_validation[of "replicate 800 CHR ''a''" okService]
    by simp
  have e: "map fst (snd (POST_analyze okService (JsonBody (ObjectBody (JString ''Hello'') Absent)))) = [''Hello'']"
    using content_length_validation[of "''Hello''" okService]
    by simp
  from a b c d e show ?thesis by blast
qed

text \<open>
  C9. For a valid content, the language sent to the grammar service is the submitted
  one when it is one of \<open>en\<close>, \<open>de\<close>, \<open>fr\<close>, \<open>es\<close>, \<open>it\<close>, and \<open>en\<close> when it is another
  string or absent.
\<close>

theorem language_coercion:
  assumes "5 \<le> length s" and "length s \<le> 800"
  shows "snd (POST_analyze lt (JsonBody (ObjectBody (JString s) (JString v)))) =
           [(s, if v \<in> {''en'', ''de'', ''fr'', ''es'', ''it''} then v else ''en'')]
       \<and> snd (POST_analyze lt (JsonBody (ObjectBody (JString s) Absent))) = [(s, ''en'')]"
  by (simp add: POST_analyze_calls[OF assms] coerceLanguage_def supportedLanguages_def)

theorem language_coercion_witness:
  "snd (POST_analyze okService (JsonBody (ObjectBody (JString ''She dont like apples.'') (JString ''de'')))) =
      [(''She dont like apples.'', ''de'')]
   \<and> snd (POST_analyze okService (JsonBody (ObjectBody (JString ''She dont like apples.'') (JString ''pt'')))) =
      [(''She dont like apples.'', ''en'')]
   \<and> snd (POST_analyze okService (JsonBody (ObjectBody (JString ''She dont like apples.'') Absent))) =
      [(''She dont like apples.'', ''en'')]"
  using language_coercion[of "''She dont like apples.''" okService "''de''"]
     language_coercion[of "''She dont like apples.''" okService "''pt''"]
  by simp

subsection \<open>The sentence grouper\<close>

text \<open>
  On matches whose contexts are not names of properties of \<open>Object.prototype\<close>, the
  grouper maps each context to the matches that carry it, in their order, and no other
  string to anything. As soon as one context is such a name, it throws.
\<close>

lemma groupStep_own:
  assumes "text_c (context_m m) \<notin> set ObjectPrototypeKeys"
  shows "groupStep sm m =
     Inr (sm(text_c (context_m m) \<mapsto>
            (case sm (text_c (context_m m)) of None \<Rightarrow> [] | Some old \<Rightarrow> old) @ [m]))"
  using assms by (simp add: groupStep_def js_get_def Let_def split: option.splits)

lemma groupStep_inherited:
  assumes "text_c (context_m m) \<in> set ObjectPrototypeKeys"
    and "sm (text_c (context_m m)) = None"
  shows "groupStep sm m = Inl TypeError"
  using assms by (simp add: groupStep_def js_get_def Let_def)

lemma groupLoop_own:
  assumes "\<forall>m \<in> set ms. text_c (context_m m) \<notin> set ObjectPrototypeKeys"
  shows "groupLoop sm ms =
     Inr (\<lambda>s. if filter (\<lambda>m. text_c (context_m m) = s) ms = [] then sm s
              else Some ((case sm s of None \<Rightarrow> [] | Some old \<Rightarrow> old) @
                         filter (\<lambda>m. text_c (context_m m) = s) ms))"
  using assms
proof (induction ms arbitrary: sm)
  case Nil
  then show ?case by simp
next
  case (Cons m ms)
  then show ?case
    by (auto simp: groupStep_own intro!: ext split: option.splits)
qed

lemma groupMatchesBySentence_own:
  assumes "\<forall>m \<in> set ms. text_c (context_m m) \<notin> set ObjectPrototypeKeys"
  shows "groupMatchesBySentence ms =
     Inr (\<lambda>s. if filter (\<lambda>m. text_c (context_m m) = s) ms = [] then None
              else Some (filter (\<lambda>m. text_c (context_m m) = s) ms))"
  by (auto simp: groupMatchesBySentence_def groupLoop_own[OF assms] intro!: ext)

lemma groupLoop_inherited:
  assumes "\<exists>m \<in> set ms. text_c (context_m m) \<in> set ObjectPrototypeKeys"
    and "\<forall>k \<in> set ObjectPrototypeKeys. sm k = None"
  shows "groupLoop sm ms = Inl TypeError"
  using assms
proof (induction ms arbitrary: sm)
  case Nil
  then show ?case by simp
next
  case (Cons m ms)
  show ?case
  proof (cases "text_c (context_m m) \<in> set ObjectPrototypeKeys")
    case True
    with Cons.prems(2) have "groupStep sm m = Inl TypeError"
      by (simp add: groupStep_inherited)
    then show ?thesis by simp
  next
    case False
    let ?sm = "sm(text_c (context_m m) \<mapsto>
            (case sm (text_c (context_m m)) of None \<Rightarrow> [] | Some old \<Rightarrow> old) @ [m])"
    from False have step: "groupStep sm m = Inr ?sm"
      by (rule groupStep_own)
    from False Cons.prems(1)
    have later: "\<exists>m \<in> set ms. text_c (context_m m) \<in> set ObjectPrototypeKeys"
      by auto
    from False Cons.prems(2) have "\<forall>k \<in> set ObjectPrototypeKeys. ?sm k = None"
      by auto
    with later have "groupLoop ?sm ms = Inl TypeError"
      by (rule Cons.IH)
    with step show ?thesis by simp
  qed
qed

lemma groupMatchesBySentence_inherited:
  assumes "\<exists>m \<in> set ms. text_c (context_m m) \<in> set ObjectPrototypeKeys"
  shows "groupMatchesBySentence ms = Inl TypeError"
  unfolding groupMatchesBySentence_def
  by (rule groupLoop_inherited[OF assms]) simp

text \<open>
  C6. The grouper does not return a mapping for every sequence of matches: when the
  context of a match is the name of a property of \<open>Object.prototype\<close>, such as
  \<open>constructor\<close>, it throws a \<open>TypeError\<close>, also after other matches were grouped. So
  does the rendering of \<open>GrammarChecker\<close> once the analysis of the content
  \<open>constructor\<close> has returned such a match.
\<close>

theorem grouper_inherited_key:
  "groupMatchesBySentence [ctorMatch] = Inl TypeError
   \<and> groupMatchesBySentence [quickMatch, ctorMatch] = Inl TypeError
   \<and> sentenceGroups (handleSubmit (checkerReady ''constructor'' [])
         (Resolved (readyResults [ctorMatch]))) = Inl TypeError"
proof -
  have inherited: "text_c (context_m ctorMatch) \<in> set ObjectPrototypeKeys"
    by (simp add: ctorMatch_def ObjectPrototypeKeys_def)
  have one: "groupMatchesBySentence [ctorMatch] = Inl TypeError"
    by (rule groupMatchesBySentence_inherited) (simp add: inherited)
  have two: "groupMatchesBySentence [quickMatch, ctorMatch] = Inl TypeError"
    by (rule groupMatchesBySentence_inherited) (simp add: inherited)
  have "separated (handleSubmit (checkerReady ''constructor'' [])
         (Resolved (readyResults [ctorMatch]))) =
        \<lparr>corrections_s = [ctorMatch], suggestions = []\<rparr>"
    by (simp add: separated_def handleSubmit_def handleSubmit_start_def handleSubmit_settle_def
          checkerReady_def readyResults_def separateMatches_def isFixed_matchKey)
       (simp add: ctorMatch_def)
  with one have three: "sentenceGroups (handleSubmit (checkerReady ''constructor'' [])
         (Resolved (readyResults [ctorMatch]))) = Inl TypeError"
    by (simp add: sentenceGroups_def)
  from one two three show ?thesis by blast
qed

end
